theory Spec2Isabelle
  imports Main "HOL-Library.Word"
begin

unbundle bit_operations_syntax

section \<open>Data model of cmd/worker/main.go\<close>

text \<open>
  A \<open>time.Time\<close> is kept as its Unix time in nanoseconds. \<open>Unix\<close> is the method
  \<open>Time.Unix()\<close> (whole seconds, rounded down), \<open>Minute\<close> and \<open>Hour\<close> are the
  \<open>time.Duration\<close> constants, and \<open>zero_time\<close> is the zero value \<open>time.Time{}\<close>
  (January 1, year 1).
\<close>

type_synonym time = int

definition Unix :: "time \<Rightarrow> int" where
  "Unix t = t div 1000000000"

definition Minute :: int where
  "Minute = 60 * 1000000000"

definition Hour :: int where
  "Hour = 60 * Minute"

definition zero_time :: time where
  "zero_time = - 62135596800 * 1000000000"

text \<open>
  The type \<open>time\<close> is used for readings of the server's clock and for what was
  stored from them. They are taken to lie in the years 0 to 9999, in a zone whose
  offset is a whole number of minutes below 24 hours, so that \<open>json.Marshal\<close> accepts
  them and reads them back as the same instant.

  A manifest is also an argument, and its times are any \<open>time.Time\<close>. On such a value
  \<open>Time.MarshalJSON\<close> returns an error when the year, in the value's zone, is outside
  0 to 9999 or the zone's offset is 24 hours or more: that is \<open>Unmarshalable\<close>.
  Otherwise the value is kept as \<open>Instant t\<close>, the instant its RFC 3339 encoding
  denotes. \<open>go_Time\<close> gives the model value of the \<open>time.Time\<close> with Unix time
  \<open>unix_nano\<close> (nanoseconds) in a zone \<open>offset\<close> seconds east of UTC; the encoding
  writes the offset in whole minutes, rounded towards zero.
\<close>

datatype Time = Instant time | Unmarshalable



text \<open>\<open>Time.Before\<close>, on times that have an encoding.\<close>

fun Before :: "Time \<Rightarrow> Time \<Rightarrow> bool" where
  "Before (Instant a) (Instant b) = (a < b)"
| "Before _ _ = False"

record Environment =
  env_ID :: string
  env_ClientID :: string
  VPNServer :: string
  VPNPort :: int
  env_Created :: time
  Status :: string
  Region :: string
  Instances :: "string list"
  env_Databases :: "string list"
  env_Storage :: "string list"

record Infrastructure =
  VPNInstances :: "string list"
  LoadBalancers :: "string list"
  Databases :: "string list"
  Storage :: "string list"
  infra_Created :: Time
  LastUpdated :: Time

record ClientData =
  ID :: string
  Email :: string
  Created :: time
  LastSeen :: time
  Environment :: Environment
  Infrastructure :: Infrastructure

text \<open>
  The OTP record is the map literal of \<open>handleRegister\<close>:
  \<open>{"otp": otp, "expires": ..., "attempts": 0}\<close>.
\<close>

record OTPData =
  otp :: string
  expires :: int
  attempts :: int

record OTPRequest =
  req_Email :: string

record OTPVerify =
  ver_Email :: string
  ver_OTP :: string

record InfrastructureUpdate =
  upd_Infrastructure :: Infrastructure

subsection \<open>Storage\<close>

text \<open>
  The store holds the bytes \<open>json.Marshal\<close> produced. A stored value is modelled as
  the JSON document it encodes: one of the three documents the program writes, or
  bytes that are not JSON at all (on which \<open>json.Unmarshal\<close> returns an error and
  leaves its destination untouched). The empty bytes that \<open>json.Marshal\<close> returns
  with an error, which the program stores all the same, are such bytes. Strings are
  taken to be valid UTF-8, those of a manifest apart, and a nil slice is identified
  with the empty one, so that marshalling, where it succeeds, followed by
  unmarshalling into the same type gives the value back.
\<close>

datatype document =
    OTPDoc OTPData
  | ClientDoc ClientData
  | EnvDoc Environment
  | NotJSON

type_synonym store = "string \<rightharpoonup> document"

text \<open>
  \<open>InMemoryStorage\<close>: \<open>Get\<close>, \<open>Put\<close> and \<open>Delete\<close> on the map \<open>data\<close>. Its \<open>Put\<close>
  and \<open>Delete\<close> always return \<open>nil\<close>. (\<open>RedisStorage\<close> hands the same three calls to
  an external client, where they can fail; the handlers ignore the errors of \<open>Put\<close>
  and \<open>Delete\<close>. What follows is about the in-memory store.)
\<close>

definition Get :: "store \<Rightarrow> string \<Rightarrow> string + document" where
  "Get m key = (case m key of Some d \<Rightarrow> Inr d | None \<Rightarrow> Inl (''key not found: '' @ key))"

definition Put :: "store \<Rightarrow> string \<Rightarrow> document \<Rightarrow> store" where
  "Put m key v = m(key \<mapsto> v)"

definition Delete :: "store \<Rightarrow> string \<Rightarrow> store" where
  "Delete m key = m(key := None)"

text \<open>The persisted key layout, each a \<open>fmt.Sprintf\<close> of a prefix and an identifier.\<close>

definition otpKey :: "string \<Rightarrow> string" where
  "otpKey email = ''otp:'' @ email"

definition clientKey :: "string \<Rightarrow> string" where
  "clientKey email = ''client:'' @ email"

definition idKey :: "string \<Rightarrow> string" where
  "idKey clientID = ''client_id:'' @ clientID"

definition envKey :: "string \<Rightarrow> string" where
  "envKey environmentID = ''environment:'' @ environmentID"

definition getEnv :: "(string \<rightharpoonup> string) \<Rightarrow> string \<Rightarrow> string \<Rightarrow> string" where
  "getEnv environ key defaultValue =
     (case environ key of
        Some v \<Rightarrow> if v \<noteq> [] then v else defaultValue
      | None \<Rightarrow> defaultValue)"

section \<open>OTP generation\<close>

text \<open>
  \<open>fmt.Sprintf("%06d", n)\<close> for \<open>n \<ge> 0\<close>: the decimal digits of \<open>n\<close>, padded on the
  left with zeros to at least six characters.
\<close>

definition digit_char :: "nat \<Rightarrow> char" where
  "digit_char d = ''0123456789'' ! d"

fun decimal :: "nat \<Rightarrow> string" where
  "decimal n =
     (if n < 10 then [digit_char n] else decimal (n div 10) @ [digit_char (n mod 10)])"

declare decimal.simps [simp del]

definition Sprintf_06d :: "nat \<Rightarrow> string" where
  "Sprintf_06d n = replicate (6 - length (decimal n)) (CHR ''0'') @ decimal n"

text \<open>
  \<open>int(bytes[0])<<16 | int(bytes[1])<<8 | int(bytes[2])\<close> on Go's 64-bit \<open>int\<close>; the
  three bytes are what \<open>rand.Read\<close> delivered.
\<close>

definition otp_value :: "8 word \<Rightarrow> 8 word \<Rightarrow> 8 word \<Rightarrow> 64 word" where
  "otp_value b0 b1 b2 = push_bit 16 (ucast b0) OR push_bit 8 (ucast b1) OR ucast b2"

definition generateOTP :: "8 word \<Rightarrow> 8 word \<Rightarrow> 8 word \<Rightarrow> string" where
  "generateOTP b0 b1 b2 = take 6 (Sprintf_06d (unat (otp_value b0 b1 b2)))"

text \<open>The byte triples on which the generator returns a given code.\<close>

definition otp_preimages :: "string \<Rightarrow> (8 word \<times> 8 word \<times> 8 word) set" where
  "otp_preimages code = {(b0, b1, b2). generateOTP b0 b1 b2 = code}"

text \<open>
  Proof devices, not part of the program: the number a code shows as a function of
  the 24-bit value, and the reading of a digit string back as a number.
\<close>

definition otp_code :: "nat \<Rightarrow> nat" where
  "otp_code v = (if v < 1000000 then v else if v < 10000000 then v div 10 else v div 100)"

definition digit_val :: "char \<Rightarrow> nat" where
  "digit_val c = of_char c - 48"

definition decimal_val :: "string \<Rightarrow> nat" where
  "decimal_val s = foldl (\<lambda>a c. 10 * a + digit_val c) 0 s"

section \<open>Session tokens\<close>

record RegisteredClaims =
  Subject :: string
  IssuedAt :: time
  ExpiresAt :: time

text \<open>
  A token string is either a well-formed token carrying claims and signed under some
  key, or any other string.
\<close>

datatype token_string =
    Signed string RegisteredClaims
  | Other string

datatype token_error = Invalid | TokenExpired

text \<open>
  Modelled from the spec: the package \<open>github.com/golang-jwt/jwt/v5\<close>
  (\<open>NewNumericDate\<close>, \<open>NewWithClaims\<close>, \<open>SignedString\<close>, \<open>ParseWithClaims\<close>) is
  imported by main.go and is not part of the sources. Following section 4.4:
  a token carries subject, issued_at and expires_at as given; validation fails with
  Invalid if the signature does not verify under the key or the structure is
  malformed, fails with Expired if \<open>now > expires_at\<close>, and otherwise yields the
  claims.
\<close>

definition SignedString :: "string \<Rightarrow> RegisteredClaims \<Rightarrow> token_string" where
  "SignedString key claims = Signed key claims"

text \<open>
  Modelled from the spec: \<open>jwt.ParseWithClaims\<close> with the key function of
  \<open>validateToken\<close>, which is not part of the sources; \<open>now\<close> is the clock reading of
  the validation.
\<close>

definition ParseWithClaims :: "string \<Rightarrow> time \<Rightarrow> token_string \<Rightarrow> token_error + RegisteredClaims" where
  "ParseWithClaims key now tokenString =
     (case tokenString of
        Other _ \<Rightarrow> Inl Invalid
      | Signed k claims \<Rightarrow>
          if k \<noteq> key then Inl Invalid
          else if now > ExpiresAt claims then Inl TokenExpired
          else Inr claims)"

text \<open>
  \<open>generateToken\<close> reads the clock twice, once for \<open>IssuedAt\<close> and once for
  \<open>ExpiresAt\<close>: \<open>t_iat\<close> and \<open>t_exp\<close> are the two readings, in that order.
\<close>

definition generateToken :: "string \<Rightarrow> time \<Rightarrow> time \<Rightarrow> string \<Rightarrow> token_string" where
  "generateToken secret t_iat t_exp clientID =
     SignedString secret
       \<lparr>Subject = clientID, IssuedAt = t_iat, ExpiresAt = t_exp + 24 * Hour\<rparr>"

text \<open>
  \<open>validateToken\<close>: every failure of the parse is the one error
  \<open>"invalid token"\<close>. The type assertion on the claims cannot fail, since the parse
  was given a \<open>*jwt.RegisteredClaims\<close>.
\<close>

definition validateToken :: "string \<Rightarrow> time \<Rightarrow> token_string \<Rightarrow> string + string" where
  "validateToken secret now tokenString =
     (case ParseWithClaims secret now tokenString of
        Inl _ \<Rightarrow> Inl ''invalid token''
      | Inr claims \<Rightarrow> Inr (Subject claims))"

section \<open>Client registry\<close>

text \<open>
  What \<open>json.Unmarshal\<close> leaves in a zero \<open>ClientData\<close>. A client document gives
  the client back. Of an environment document only the keys \<open>id\<close> and \<open>created\<close>
  name fields of \<open>ClientData\<close>; an OTP document has no such key; bytes that are not
  JSON leave the zero value (the error is ignored by the callers).
\<close>

definition zero_Environment :: Environment where
  "zero_Environment =
     \<lparr>env_ID = [], env_ClientID = [], VPNServer = [], VPNPort = 0, env_Created = zero_time,
      Status = [], Region = [], Instances = [], env_Databases = [], env_Storage = []\<rparr>"

definition zero_Infrastructure :: Infrastructure where
  "zero_Infrastructure =
     \<lparr>VPNInstances = [], LoadBalancers = [], Databases = [], Storage = [],
      infra_Created = Instant zero_time, LastUpdated = Instant zero_time\<rparr>"

definition zero_ClientData :: ClientData where
  "zero_ClientData =
     \<lparr>ID = [], Email = [], Created = zero_time, LastSeen = zero_time,
      Environment = zero_Environment, Infrastructure = zero_Infrastructure\<rparr>"

fun unmarshal_ClientData :: "document \<Rightarrow> ClientData" where
  "unmarshal_ClientData (ClientDoc c) = c"
| "unmarshal_ClientData (EnvDoc e) = zero_ClientData\<lparr>ID := env_ID e, Created := env_Created e\<rparr>"
| "unmarshal_ClientData (OTPDoc d) = zero_ClientData"
| "unmarshal_ClientData NotJSON = zero_ClientData"

text \<open>
  The strings of a manifest are arguments too, and may hold any bytes.
  \<open>json.Marshal\<close> writes a string rune by rune, as \<open>utf8.DecodeRuneInString\<close> finds
  them, and writes U+FFFD for every byte that does not start a valid UTF-8 encoding;
  reading the document back gives the string with those bytes replaced.
  \<open>rune_size\<close> is the width of the encoding at the head of the bytes, 0 when there is
  none; \<open>json_string\<close> is the string as it reads back, and \<open>json_Infrastructure\<close>
  the manifest as it reads back.
\<close>

definition continuation :: "nat \<Rightarrow> bool" where
  "continuation b \<longleftrightarrow> 128 \<le> b \<and> b \<le> 191"

fun rune_size :: "nat list \<Rightarrow> nat" where
  "rune_size [] = 0"
| "rune_size (b # bs) =
     (if b < 128 then 1
      else if 194 \<le> b \<and> b \<le> 223 then
        (case bs of
           b1 # _ \<Rightarrow> if continuation b1 then 2 else 0
         | _ \<Rightarrow> 0)
      else if 224 \<le> b \<and> b \<le> 239 then
        (case bs of
           b1 # b2 # _ \<Rightarrow>
             if (if b = 224 then 160 else 128) \<le> b1 \<and> b1 \<le> (if b = 237 then 159 else 191) \<and>
                continuation b2
             then 3 else 0
         | _ \<Rightarrow> 0)
      else if 240 \<le> b \<and> b \<le> 244 then
        (case bs of
           b1 # b2 # b3 # _ \<Rightarrow>
             if (if b = 240 then 144 else 128) \<le> b1 \<and> b1 \<le> (if b = 244 then 143 else 191) \<and>
                continuation b2 \<and> continuation b3
             then 4 else 0
         | _ \<Rightarrow> 0)
      else 0)"

function json_string :: "string \<Rightarrow> string" where
  "json_string [] = []"
| "json_string (c # cs) =
     (let n = rune_size (map of_char (c # cs)) in
      if n = 0 then [CHR 0xEF, CHR 0xBF, CHR 0xBD] @ json_string cs
      else c # take (n - 1) cs @ json_string (drop (n - 1) cs))"
  by pat_completeness (simp_all only: list.inject list.distinct)

termination
  by (relation "measure length") (simp_all del: rune_size.simps)

definition json_Infrastructure :: "Infrastructure \<Rightarrow> Infrastructure" where
  "json_Infrastructure m =
     m\<lparr>VPNInstances := map json_string (VPNInstances m),
       LoadBalancers := map json_string (LoadBalancers m),
       Databases := map json_string (Databases m),
       Storage := map json_string (Storage m)\<rparr>"

text \<open>
  \<open>json.Marshal\<close> of a \<open>ClientData\<close>, with its error dropped as the callers drop it
  (\<open>bytes, _ := json.Marshal(...)\<close>): the client document, in which the manifest is
  as it reads back, or empty bytes when a time of the manifest cannot be marshalled.
  The other fields cannot fail and read back as they are: their times are clock
  readings, and their strings come from a JSON decoder, from the UUID generator,
  from the process environment or from the store. Neither can \<open>json.Marshal\<close> of an
  \<open>Environment\<close> or of the OTP record fail, whose documents are written as they are.
\<close>

fun Time_ok :: "Time \<Rightarrow> bool" where
  "Time_ok (Instant t) = True"
| "Time_ok Unmarshalable = False"

definition Marshal_ClientData :: "ClientData \<Rightarrow> document" where
  "Marshal_ClientData c =
     (if Time_ok (infra_Created (Infrastructure c)) \<and> Time_ok (LastUpdated (Infrastructure c))
      then ClientDoc (c\<lparr>Infrastructure := json_Infrastructure (Infrastructure c)\<rparr>)
      else NotJSON)"

text \<open>
  What one call of \<open>getOrCreateClientWithInfrastructure\<close> draws from outside when it
  creates a client: the two \<open>uuid.New().String()\<close> values and the five readings of
  \<open>time.Now()\<close>, in program order. A UUID string has 36 characters, so the slice
  \<open>clientID[:8]\<close> is in range.
\<close>

record fresh =
  client_uuid :: string
  environment_uuid :: string
  t_environment :: time
  t_infra_created :: time
  t_infra_updated :: time
  t_created :: time
  t_last_seen :: time

definition getOrCreateClientWithInfrastructure ::
  "(string \<rightharpoonup> string) \<Rightarrow> fresh \<Rightarrow> store \<Rightarrow> string \<Rightarrow> ClientData \<times> store" where
  "getOrCreateClientWithInfrastructure environ f s email =
     (case Get s (clientKey email) of
        Inr clientBytes \<Rightarrow> (unmarshal_ClientData clientBytes, s)
      | Inl err \<Rightarrow>
          let clientID = client_uuid f;
              environmentID = environment_uuid f;
              environment =
                \<lparr>env_ID = environmentID, env_ClientID = clientID,
                 VPNServer = ''vpn-'' @ take 8 clientID @ ''.soltar.com'',
                 VPNPort = 443, env_Created = t_environment f, Status = ''active'',
                 Region = getEnv environ ''REGION'' ''us-east-1'',
                 Instances = [], env_Databases = [], env_Storage = []\<rparr>;
              infrastructure =
                \<lparr>VPNInstances = [], LoadBalancers = [], Databases = [], Storage = [],
                 infra_Created = Instant (t_infra_created f),
                 LastUpdated = Instant (t_infra_updated f)\<rparr>;
              client =
                \<lparr>ID = clientID, Email = email, Created = t_created f,
                 LastSeen = t_last_seen f, Environment = environment,
                 Infrastructure = infrastructure\<rparr>;
              newClientBytes = Marshal_ClientData client;
              s1 = Put s (clientKey email) newClientBytes;
              s2 = Put s1 (idKey clientID) newClientBytes;
              s3 = Put s2 (envKey environmentID) (EnvDoc environment)
          in (client, s3))"

definition getClientInfrastructure :: "store \<Rightarrow> string \<Rightarrow> ClientData option" where
  "getClientInfrastructure s clientID =
     (case Get s (idKey clientID) of
        Inl err \<Rightarrow> None
      | Inr clientBytes \<Rightarrow> Some (unmarshal_ClientData clientBytes))"

definition updateClientInfrastructure :: "time \<Rightarrow> store \<Rightarrow> string \<Rightarrow> Infrastructure \<Rightarrow> store" where
  "updateClientInfrastructure now s clientID infrastructure =
     (case getClientInfrastructure s clientID of
        None \<Rightarrow> s
      | Some clientData \<Rightarrow>
          let c1 = clientData\<lparr>Infrastructure := infrastructure\<rparr>;
              c2 = c1\<lparr>Infrastructure := (Infrastructure c1)\<lparr>LastUpdated := Instant now\<rparr>\<rparr>;
              updatedBytes = Marshal_ClientData c2;
              s1 = Put s (idKey clientID) updatedBytes
          in Put s1 (clientKey (Email c2)) updatedBytes)"

definition updateClientLastSeen :: "time \<Rightarrow> store \<Rightarrow> string \<Rightarrow> store" where
  "updateClientLastSeen now s clientID =
     (case getClientInfrastructure s clientID of
        None \<Rightarrow> s
      | Some clientData \<Rightarrow>
          let c1 = clientData\<lparr>LastSeen := now\<rparr>;
              updatedBytes = Marshal_ClientData c1;
              s1 = Put s (idKey clientID) updatedBytes
          in Put s1 (clientKey (Email c1)) updatedBytes)"


section \<open>Request handlers\<close>

text \<open>The process-wide configuration: the signing secret and the OS environment.\<close>

record config =
  secret :: string
  environ :: "string \<rightharpoonup> string"

record AuthResponse =
  auth_ClientID :: string
  auth_Token :: token_string
  auth_Environment :: Environment

record VPNConfig =
  Server :: string
  Port :: int
  Token :: token_string
  EnvironmentID :: string

text \<open>
  What a handler writes: \<open>http.Error\<close> with its status and message, or status 200
  with the JSON body of the endpoint.
\<close>

datatype response =
    HttpError nat string
  | RegisterOK string
  | VerifyOK AuthResponse
  | ConnectOK string Environment
  | ConfigOK VPNConfig
  | InfrastructureOK string
  | GetInfrastructureOK string Infrastructure Environment

text \<open>
  \<open>handleRegister\<close>. The request is the decoded body, \<open>None\<close> when decoding fails;
  \<open>b0 b1 b2\<close> are the random bytes and \<open>now\<close> the clock reading. Delivery of the
  code (\<open>sendOTPEmail\<close>) only logs.
\<close>

definition handleRegister ::
  "8 word \<Rightarrow> 8 word \<Rightarrow> 8 word \<Rightarrow> time \<Rightarrow> store \<Rightarrow> OTPRequest option \<Rightarrow> response \<times> store" where
  "handleRegister b0 b1 b2 now s r =
     (case r of
        None \<Rightarrow> (HttpError 400 ''Invalid request'', s)
      | Some req \<Rightarrow>
          if req_Email req = [] then (HttpError 400 ''Missing email'', s)
          else
            let otpData =
                  \<lparr>otp = generateOTP b0 b1 b2, expires = Unix (now + 5 * Minute), attempts = 0\<rparr>
            in (RegisterOK ''OTP sent to email'', Put s (otpKey (req_Email req)) (OTPDoc otpData)))"

text \<open>
  \<open>handleVerify\<close>. The stored bytes are unmarshalled into a
  \<open>map[string]interface{}\<close>: \<open>otp_field\<close> and \<open>expires_field\<close> are the entries
  \<open>otpData["otp"]\<close> and \<open>otpData["expires"]\<close>, \<open>None\<close> when the document has no such
  key. The outcomes are the returns of the handler in program order; \<open>Panic\<close> is the
  failed type assertion \<open>.(float64)\<close>. The stored \<open>expires\<close> is an integer below
  \<open>2 ^ 53\<close> in absolute value, which the passage through \<open>float64\<close> keeps exact.
\<close>

fun otp_field :: "document \<Rightarrow> string option" where
  "otp_field (OTPDoc d) = Some (otp d)"
| "otp_field _ = None"

fun expires_field :: "document \<Rightarrow> int option" where
  "expires_field (OTPDoc d) = Some (expires d)"
| "expires_field _ = None"

datatype verify_outcome =
    BadRequest
  | NotFound
  | Malformed
  | Mismatch
  | Panic
  | Expired
  | Verified AuthResponse

fun verify_response :: "verify_outcome \<Rightarrow> response option" where
  "verify_response BadRequest = Some (HttpError 400 ''Invalid request'')"
| "verify_response NotFound = Some (HttpError 400 ''Invalid OTP'')"
| "verify_response Malformed = Some (HttpError 400 ''Invalid OTP'')"
| "verify_response Mismatch = Some (HttpError 400 ''Invalid OTP'')"
| "verify_response Panic = None"
| "verify_response Expired = Some (HttpError 400 ''OTP expired'')"
| "verify_response (Verified a) = Some (VerifyOK a)"

definition handleVerify ::
  "config \<Rightarrow> time \<Rightarrow> fresh \<Rightarrow> time \<Rightarrow> time \<Rightarrow> store \<Rightarrow> OTPVerify option \<Rightarrow> verify_outcome \<times> store" where
  "handleVerify cfg now f t_iat t_exp s r =
     (case r of
        None \<Rightarrow> (BadRequest, s)
      | Some req \<Rightarrow>
          (case Get s (otpKey (ver_Email req)) of
             Inl err \<Rightarrow> (NotFound, s)
           | Inr otpBytes \<Rightarrow>
               if otpBytes = NotJSON then (Malformed, s)
               else if otp_field otpBytes \<noteq> Some (ver_OTP req) then (Mismatch, s)
               else
                 (case expires_field otpBytes of
                    None \<Rightarrow> (Panic, s)
                  | Some e \<Rightarrow>
                      if Unix now > e then (Expired, Delete s (otpKey (ver_Email req)))
                      else
                        let (clientData, s1) =
                              getOrCreateClientWithInfrastructure (environ cfg) f s (ver_Email req);
                            token = generateToken (secret cfg) t_iat t_exp (ID clientData);
                            s2 = Delete s1 (otpKey (ver_Email req))
                        in (Verified
                              \<lparr>auth_ClientID = ID clientData, auth_Token = token,
                               auth_Environment = Environment clientData\<rparr>, s2))))"

text \<open>
  The authenticated handlers. \<open>authHeader\<close> is \<open>None\<close> for an empty Authorization
  header and otherwise the header with the prefix \<open>"Bearer "\<close> trimmed; \<open>t_validate\<close>
  is the clock reading of the token validation.
\<close>

definition handleConnect ::
  "config \<Rightarrow> time \<Rightarrow> time \<Rightarrow> store \<Rightarrow> token_string option \<Rightarrow> response \<times> store" where
  "handleConnect cfg t_validate now s authHeader =
     (case authHeader of
        None \<Rightarrow> (HttpError 401 ''Unauthorized'', s)
      | Some token \<Rightarrow>
          (case validateToken (secret cfg) t_validate token of
             Inl err \<Rightarrow> (HttpError 401 ''Invalid token'', s)
           | Inr clientID \<Rightarrow>
               (case getClientInfrastructure s clientID of
                  None \<Rightarrow> (HttpError 404 ''Client not found'', s)
                | Some clientData \<Rightarrow>
                    (ConnectOK clientID (Environment clientData),
                     updateClientLastSeen now s clientID))))"

definition handleConfig ::
  "config \<Rightarrow> time \<Rightarrow> store \<Rightarrow> token_string option \<Rightarrow> response \<times> store" where
  "handleConfig cfg t_validate s authHeader =
     (case authHeader of
        None \<Rightarrow> (HttpError 401 ''Unauthorized'', s)
      | Some token \<Rightarrow>
          (case validateToken (secret cfg) t_validate token of
             Inl err \<Rightarrow> (HttpError 401 ''Invalid token'', s)
           | Inr clientID \<Rightarrow>
               (case getClientInfrastructure s clientID of
                  None \<Rightarrow> (HttpError 404 ''Client not found'', s)
                | Some clientData \<Rightarrow>
                    (ConfigOK
                       \<lparr>Server = VPNServer (Environment clientData),
                        Port = VPNPort (Environment clientData),
                        Token = token,
                        EnvironmentID = env_ID (Environment clientData)\<rparr>, s))))"

definition handleInfrastructure ::
  "config \<Rightarrow> time \<Rightarrow> time \<Rightarrow> store \<Rightarrow> token_string option \<Rightarrow> InfrastructureUpdate option
     \<Rightarrow> response \<times> store" where
  "handleInfrastructure cfg t_validate now s authHeader body =
     (case authHeader of
        None \<Rightarrow> (HttpError 401 ''Unauthorized'', s)
      | Some token \<Rightarrow>
          (case validateToken (secret cfg) t_validate token of
             Inl err \<Rightarrow> (HttpError 401 ''Invalid token'', s)
           | Inr clientID \<Rightarrow>
               (case body of
                  None \<Rightarrow> (HttpError 400 ''Invalid request'', s)
                | Some req \<Rightarrow>
                    (InfrastructureOK clientID,
                     updateClientInfrastructure now s clientID (upd_Infrastructure req)))))"

definition handleGetInfrastructure ::
  "config \<Rightarrow> time \<Rightarrow> store \<Rightarrow> token_string option \<Rightarrow> response \<times> store" where
  "handleGetInfrastructure cfg t_validate s authHeader =
     (case authHeader of
        None \<Rightarrow> (HttpError 401 ''Unauthorized'', s)
      | Some token \<Rightarrow>
          (case validateToken (secret cfg) t_validate token of
             Inl err \<Rightarrow> (HttpError 401 ''Invalid token'', s)
           | Inr clientID \<Rightarrow>
               (case getClientInfrastructure s clientID of
                  None \<Rightarrow> (HttpError 404 ''Client not found'', s)
                | Some clientData \<Rightarrow>
                    (GetInfrastructureOK clientID (Infrastructure clientData)
                       (Environment clientData), s))))"

section \<open>Concrete inputs\<close>

text \<open>
  The inputs of cmd/worker/main_test.go (the email, the code 123456 with zero attempts)
  and of main.go (the default signing secret, the client identifier of
  \<open>handleDebugList\<close>), with clock readings in nanoseconds.
\<close>

definition test_email :: string where
  "test_email = ''test@example.com''"

definition test_cfg :: config where
  "test_cfg = \<lparr>secret = ''your-secret-key-change-in-production'', environ = Map.empty\<rparr>"

definition test_fresh :: fresh where
  "test_fresh =
     \<lparr>client_uuid = ''ac5f3df0-4f70-4cb2-846d-5cc0e4f2e2c9'',
      environment_uuid = ''0b9e2a52-7d1c-4e0a-9c3f-5a1d8e6f4b27'',
      t_environment = 1700000000000000001, t_infra_created = 1700000000000000002,
      t_infra_updated = 1700000000000000003, t_created = 1700000000000000004,
      t_last_seen = 1700000000000000005\<rparr>"

definition test_otp :: OTPData where
  "test_otp = \<lparr>otp = ''123456'', expires = 1700000300, attempts = 0\<rparr>"

definition test_store :: store where
  "test_store = Map.empty(otpKey test_email \<mapsto> OTPDoc test_otp)"

definition test_client_store :: store where
  "test_client_store =
     snd (getOrCreateClientWithInfrastructure (environ test_cfg) test_fresh Map.empty test_email)"

definition test_token :: token_string where
  "test_token =
     generateToken (secret test_cfg) 1700000000000000006 1700000000000000006 (client_uuid test_fresh)"

definition test_manifest :: Infrastructure where
  "test_manifest =
     \<lparr>VPNInstances = [''vpn-1''], LoadBalancers = [], Databases = [''db-1''], Storage = [],
      infra_Created = Instant 5, LastUpdated = Instant 7\<rparr>"


text \<open>
  A proof device: the aggregate \<open>getOrCreateClientWithInfrastructure\<close> builds for a
  new email, which does not depend on the store.
\<close>

definition new_client :: "(string \<rightharpoonup> string) \<Rightarrow> fresh \<Rightarrow> string \<Rightarrow> ClientData" where
  "new_client env f email = fst (getOrCreateClientWithInfrastructure env f Map.empty email)"

section \<open>The generated code\<close>

lemma or_low_bits_nat:
  fixes x y :: nat
  assumes "y < 2 ^ n"
  shows "x * 2 ^ n OR y = x * 2 ^ n + y"
proof -
  have y: "take_bit n y = y" using assms by (rule take_bit_nat_eq_self)
  have "push_bit n x + take_bit n y = push_bit n x OR take_bit n y"
    by (rule disjunctive_add) (auto simp: bit_simps)
  then show ?thesis by (simp add: y push_bit_eq_mult)
qed

lemma otp_value_unat: "unat (otp_value b0 b1 b2) = unat b0 * 65536 + unat b1 * 256 + unat b2"
proof -
  have a: "unat b0 < 256" "unat b1 < 256" "unat b2 < 256"
    using unsigned_less [of b0, where ?'a = nat] unsigned_less [of b1, where ?'a = nat]
      unsigned_less [of b2, where ?'a = nat] by simp_all
  have u: "unat (ucast b :: 64 word) = unat b" for b :: "8 word"
  proof -
    have "unat b < 2 ^ 8" using unsigned_less [of b, where ?'a = nat] by simp
    then have "unat b < 2 ^ 64" by simp
    then show ?thesis by (simp add: unsigned_ucast_eq take_bit_nat_eq_self)
  qed
  have p: "unat (push_bit n (ucast b :: 64 word)) = unat b * 2 ^ n" if "n \<le> 16" for b :: "8 word" and n
  proof -
    have "unat b < 2 ^ 8" using unsigned_less [of b, where ?'a = nat] by simp
    then have "unat b * 2 ^ n < 2 ^ 8 * 2 ^ n" by simp
    also have "\<dots> = 2 ^ (8 + n)" by (simp add: power_add)
    also have "\<dots> \<le> (2::nat) ^ 64" using that by (intro power_increasing) simp_all
    finally have lt: "push_bit n (unat b) < 2 ^ 64" by (simp add: push_bit_eq_mult)
    have "unat (push_bit n (ucast b :: 64 word)) = take_bit 64 (push_bit n (unat b))"
      by (simp add: unsigned_push_bit_eq u)
    also have "\<dots> = push_bit n (unat b)" using lt by (rule take_bit_nat_eq_self)
    finally show ?thesis by (simp add: push_bit_eq_mult)
  qed
  have p16: "unat (push_bit 16 (ucast b0 :: 64 word)) = unat b0 * 2 ^ 16" by (rule p) simp
  have p8: "unat (push_bit 8 (ucast b1 :: 64 word)) = unat b1 * 2 ^ 8" by (rule p) simp
  have "unat (otp_value b0 b1 b2) = unat b0 * 2 ^ 16 OR (unat b1 * 2 ^ 8 OR unat b2)"
    by (simp only: otp_value_def unsigned_or_eq p16 p8 u or.assoc)
  also have "unat b1 * 2 ^ 8 OR unat b2 = unat b1 * 2 ^ 8 + unat b2"
    using a by (intro or_low_bits_nat) simp
  also have "unat b0 * 2 ^ 16 OR (unat b1 * 2 ^ 8 + unat b2) = unat b0 * 2 ^ 16 + (unat b1 * 2 ^ 8 + unat b2)"
    using a by (intro or_low_bits_nat) simp
  finally show ?thesis by simp
qed

lemma otp_value_less: "unat (otp_value b0 b1 b2) < 16777216"
proof -
  have a: "unat b0 < 256" "unat b1 < 256" "unat b2 < 256"
    using unsigned_less [of b0, where ?'a = nat] unsigned_less [of b1, where ?'a = nat]
      unsigned_less [of b2, where ?'a = nat] by simp_all
  then show ?thesis unfolding otp_value_unat by simp
qed

lemma otp_value_zero: "unat (otp_value b0 b1 b2) = 0 \<Longrightarrow> b0 = 0 \<and> b1 = 0 \<and> b2 = 0"
  unfolding otp_value_unat by (simp add: unat_eq_0)

lemma digit_cases: "d < 10 \<Longrightarrow> d = 0 \<or> d = 1 \<or> d = 2 \<or> d = 3 \<or> d = 4 \<or> d = 5 \<or> d = 6 \<or> d = 7 \<or> d = 8 \<or> d = (9::nat)"
  by arith

lemma digit_val_digit_char: "d < 10 \<Longrightarrow> digit_val (digit_char d) = d"
  using digit_cases [of d] by (auto simp: digit_val_def digit_char_def)

lemma digit_char_is_digit: "d < 10 \<Longrightarrow> digit_char d \<in> set ''0123456789''"
  using digit_cases [of d] by (auto simp: digit_char_def)

lemma decimal_digits: "set (decimal n) \<subseteq> set ''0123456789''"
proof (induction n rule: decimal.induct)
  case (1 n)
  show ?case
  proof (cases "n < 10")
    case True
    then show ?thesis using digit_char_is_digit [of n] by (simp add: decimal.simps [of n])
  next
    case False
    have "n mod 10 < 10" by simp
    then have "digit_char (n mod 10) \<in> set ''0123456789''" by (rule digit_char_is_digit)
    with False 1 show ?thesis by (simp add: decimal.simps [of n])
  qed
qed

lemma decimal_length_le: "0 < k \<Longrightarrow> n < 10 ^ k \<Longrightarrow> length (decimal n) \<le> k"
proof (induction k arbitrary: n)
  case 0
  then show ?case by simp
next
  case (Suc k)
  show ?case
  proof (cases "n < 10")
    case True
    then show ?thesis by (simp add: decimal.simps [of n])
  next
    case False
    with Suc.prems have k: "0 < k" by (cases k) auto
    from Suc.prems have "n div 10 < 10 ^ k" by (simp add: less_mult_imp_div_less mult.commute)
    with k have "length (decimal (n div 10)) \<le> k" by (rule Suc.IH)
    with False show ?thesis by (simp add: decimal.simps [of n])
  qed
qed

lemma decimal_length_gt: "10 ^ k \<le> n \<Longrightarrow> k < length (decimal n)"
proof (induction k arbitrary: n)
  case 0
  then show ?case by (simp add: decimal.simps [of n])
next
  case (Suc k)
  from Suc.prems have p: "10 * 10 ^ k \<le> n" by simp
  have "(10::nat) \<le> 10 * 10 ^ k" by simp
  with p have ge: "\<not> n < 10" by linarith
  from Suc.prems have "10 ^ k \<le> n div 10" by (simp add: less_eq_div_iff_mult_less_eq mult.commute)
  then have "k < length (decimal (n div 10))" by (rule Suc.IH)
  with ge show ?case by (simp add: decimal.simps [of n])
qed

lemma decimal_val_snoc: "decimal_val (s @ [c]) = 10 * decimal_val s + digit_val c"
  by (simp add: decimal_val_def)

lemma decimal_val_decimal: "decimal_val (decimal n) = n"
proof (induction n rule: decimal.induct)
  case (1 n)
  show ?case
  proof (cases "n < 10")
    case True
    then show ?thesis by (simp add: decimal.simps [of n] decimal_val_def digit_val_digit_char)
  next
    case False
    with 1 show ?thesis
      by (simp add: decimal.simps [of n] decimal_val_snoc digit_val_digit_char)
  qed
qed

lemma decimal_val_zeros: "decimal_val (replicate k (CHR ''0'') @ s) = decimal_val s"
proof -
  have "foldl (\<lambda>a c. 10 * a + digit_val c) 0 (replicate k (CHR ''0'')) = 0"
    by (induction k) (simp_all add: digit_val_def)
  then show ?thesis by (simp add: decimal_val_def)
qed

lemma decimal_val_Sprintf: "decimal_val (Sprintf_06d n) = n"
  by (simp add: Sprintf_06d_def decimal_val_zeros decimal_val_decimal)

lemma Sprintf_06d_length: "n < 1000000 \<Longrightarrow> length (Sprintf_06d n) = 6"
  using decimal_length_le [of 6 n] by (simp add: Sprintf_06d_def)

lemma Sprintf_06d_digits: "set (Sprintf_06d n) \<subseteq> set ''0123456789''"
  using decimal_digits [of n] by (auto simp: Sprintf_06d_def)

lemma Sprintf_06d_big: "100000 \<le> n \<Longrightarrow> Sprintf_06d n = decimal n"
  using decimal_length_gt [of 5 n] by (simp add: Sprintf_06d_def)

lemma take6_Sprintf: "n < 16777216 \<Longrightarrow> take 6 (Sprintf_06d n) = Sprintf_06d (otp_code n)"
proof -
  assume n: "n < 16777216"
  consider "n < 1000000" | "1000000 \<le> n" "n < 10000000" | "10000000 \<le> n" by linarith
  then show ?thesis
  proof cases
    case 1
    then show ?thesis by (simp add: otp_code_def Sprintf_06d_length)
  next
    case 2
    then have q: "100000 \<le> n div 10" "n div 10 < 1000000" by simp_all
    have l: "length (decimal (n div 10)) = 6"
      using decimal_length_gt [of 5 "n div 10"] decimal_length_le [of 6 "n div 10"] q by simp
    from 2 have "Sprintf_06d n = decimal (n div 10) @ [digit_char (n mod 10)]"
      by (simp add: Sprintf_06d_big decimal.simps [of n])
    with l q 2 show ?thesis by (simp add: otp_code_def Sprintf_06d_big)
  next
    case 3
    with n have q: "100000 \<le> n div 100" "n div 100 < 1000000" by simp_all
    have l: "length (decimal (n div 100)) = 6"
      using decimal_length_gt [of 5 "n div 100"] decimal_length_le [of 6 "n div 100"] q by simp
    have d: "n div 10 div 10 = n div 100" by (simp add: div_mult2_eq [symmetric])
    from 3 have ge: "\<not> n < 10" "\<not> n div 10 < 10" by simp_all
    from 3 ge have "Sprintf_06d n = (decimal (n div 100) @ [digit_char (n div 10 mod 10)]) @ [digit_char (n mod 10)]"
      by (simp add: Sprintf_06d_big decimal.simps [of n] decimal.simps [of "n div 10"] d)
    with l q 3 show ?thesis by (simp add: otp_code_def Sprintf_06d_big)
  qed
qed

lemma otp_code_less: "n < 16777216 \<Longrightarrow> otp_code n < 1000000"
  unfolding otp_code_def by (cases "n < 1000000"; cases "n < 10000000") simp_all

lemma generateOTP_code:
  "generateOTP b0 b1 b2 = Sprintf_06d (otp_code (unat (otp_value b0 b1 b2)))"
  unfolding generateOTP_def using otp_value_less [of b0 b1 b2] by (rule take6_Sprintf)

lemma otp_code_zero: "otp_code v = 0 \<Longrightarrow> v = 0"
  unfolding otp_code_def by (cases "v < 1000000"; cases "v < 10000000") auto

lemma otp_preimages_zero: "otp_preimages ''000000'' = {(0, 0, 0)}"
proof -
  have z: "Sprintf_06d 0 = ''000000''"
    by code_simp
  have "b0 = 0 \<and> b1 = 0 \<and> b2 = 0" if "generateOTP b0 b1 b2 = ''000000''" for b0 b1 b2
  proof -
    from that have "decimal_val (Sprintf_06d (otp_code (unat (otp_value b0 b1 b2)))) = decimal_val (Sprintf_06d 0)"
      by (simp add: generateOTP_code z)
    then have "otp_code (unat (otp_value b0 b1 b2)) = 0" by (simp only: decimal_val_Sprintf)
    then have "unat (otp_value b0 b1 b2) = 0" by (rule otp_code_zero)
    then show ?thesis by (rule otp_value_zero)
  qed
  moreover have "generateOTP 0 0 0 = ''000000''"
    by (simp add: generateOTP_def otp_value_def z)
  ultimately show ?thesis by (auto simp: otp_preimages_def)
qed

text \<open>
  C1 (amended). Every generated code is a string of exactly six decimal digits,
  leading zeros included: it is the six-character zero-padded rendering of
  \<open>otp_code v\<close>, where \<open>v\<close> is the 24-bit value of the three random bytes, that is of
  \<open>v\<close> itself below one million, of \<open>v div 10\<close> below ten million and of
  \<open>v div 100\<close> above.
\<close>

theorem generateOTP_six_digits:
  "length (generateOTP b0 b1 b2) = 6 \<and>
   set (generateOTP b0 b1 b2) \<subseteq> set ''0123456789'' \<and>
   generateOTP b0 b1 b2 = Sprintf_06d (otp_code (unat (otp_value b0 b1 b2))) \<and>
   unat (otp_value b0 b1 b2) = unat b0 * 65536 + unat b1 * 256 + unat b2"
proof -
  have "otp_code (unat (otp_value b0 b1 b2)) < 1000000"
    using otp_value_less [of b0 b1 b2] by (rule otp_code_less)
  then have "length (generateOTP b0 b1 b2) = 6"
    by (simp add: generateOTP_code Sprintf_06d_length)
  moreover have "set (generateOTP b0 b1 b2) \<subseteq> set ''0123456789''"
    unfolding generateOTP_code by (rule Sprintf_06d_digits)
  ultimately show ?thesis using generateOTP_code otp_value_unat by blast
qed

text \<open>
  C1 as stated fails: the codes do not have equally many preimages among the byte
  triples. Only the triple (0, 0, 0) gives 000000, while 100000 is given by the
  values 100000 and 1000000 (and more).
\<close>

theorem generateOTP_not_uniform:
  "card (otp_preimages ''000000'') < card (otp_preimages ''100000'')"
proof -
  have a: "generateOTP 1 134 160 = ''100000''"
    by (simp add: generateOTP_def otp_value_def Sprintf_06d_def digit_char_def decimal.simps)
  have b: "generateOTP 15 66 64 = ''100000''"
    by (simp add: generateOTP_def otp_value_def Sprintf_06d_def digit_char_def decimal.simps)
  have "{(1, 134, 160), (15, 66, 64)} \<subseteq> otp_preimages ''100000''"
    using a b by (simp add: otp_preimages_def)
  then have "card {(1 :: 8 word, 134 :: 8 word, 160 :: 8 word), (15, 66, 64)} \<le> card (otp_preimages ''100000'')"
    by (intro card_mono) simp_all
  then have "2 \<le> card (otp_preimages ''100000'')" by simp
  then show ?thesis by (simp add: otp_preimages_zero)
qed

section \<open>The key layout\<close>

lemma key_inj [simp]:
  "otpKey a = otpKey b \<longleftrightarrow> a = b"
  "clientKey a = clientKey b \<longleftrightarrow> a = b"
  "idKey a = idKey b \<longleftrightarrow> a = b"
  "envKey a = envKey b \<longleftrightarrow> a = b"
  by (simp_all add: otpKey_def clientKey_def idKey_def envKey_def)

lemma key_distinct [simp]:
  "otpKey a \<noteq> clientKey b" "otpKey a \<noteq> idKey b" "otpKey a \<noteq> envKey b"
  "clientKey a \<noteq> otpKey b" "clientKey a \<noteq> idKey b" "clientKey a \<noteq> envKey b"
  "idKey a \<noteq> otpKey b" "idKey a \<noteq> clientKey b" "idKey a \<noteq> envKey b"
  "envKey a \<noteq> otpKey b" "envKey a \<noteq> clientKey b" "envKey a \<noteq> idKey b"
  by (simp_all add: otpKey_def clientKey_def idKey_def envKey_def)

section \<open>OTP verification\<close>

lemma getOrCreate_otp_untouched:
  "snd (getOrCreateClientWithInfrastructure env f s email) (otpKey e) = s (otpKey e)"
  by (simp add: getOrCreateClientWithInfrastructure_def Get_def Put_def Let_def split: option.split)

lemma getOrCreate_fst_otp:
  "fst (getOrCreateClientWithInfrastructure env f (s(otpKey e \<mapsto> x)) email) =
   fst (getOrCreateClientWithInfrastructure env f s email)"
  by (simp add: getOrCreateClientWithInfrastructure_def Get_def Let_def split: option.split)

lemma handleVerify_absent:
  "s (otpKey email) = None \<Longrightarrow>
   handleVerify cfg now f t_iat t_exp s (Some \<lparr>ver_Email = email, ver_OTP = cand\<rparr>) = (NotFound, s)"
  by (simp add: handleVerify_def Get_def)

lemma handleVerify_success:
  assumes "s (otpKey email) = Some (OTPDoc d)" and "Unix now \<le> expires d"
  shows "handleVerify cfg now f t_iat t_exp s (Some \<lparr>ver_Email = email, ver_OTP = otp d\<rparr>) =
     (let (c, s1) = getOrCreateClientWithInfrastructure (environ cfg) f s email in
      (Verified \<lparr>auth_ClientID = ID c,
                 auth_Token = generateToken (secret cfg) t_iat t_exp (ID c),
                 auth_Environment = Environment c\<rparr>,
       Delete s1 (otpKey email)))"
  using assms by (simp add: handleVerify_def Get_def Let_def split: prod.split)

lemma handleVerify_otp_key:
  "snd (handleVerify cfg now f t_iat t_exp s r) (otpKey e) = s (otpKey e) \<or>
   snd (handleVerify cfg now f t_iat t_exp s r) (otpKey e) = None"
  by (simp add: handleVerify_def Get_def Delete_def Let_def case_prod_beta
      getOrCreate_otp_untouched split: option.split)

lemma attempts_never_gate:
  "fst (handleVerify cfg now f t_iat t_exp (s(otpKey e \<mapsto> OTPDoc (d\<lparr>attempts := a\<rparr>))) r) =
   fst (handleVerify cfg now f t_iat t_exp (s(otpKey e \<mapsto> OTPDoc d)) r)"
proof (cases r)
  case None
  then show ?thesis by (simp add: handleVerify_def)
next
  case (Some req)
  show ?thesis
  proof (cases "ver_Email req = e")
    case True
    with Some show ?thesis
      by (simp add: handleVerify_def Get_def Let_def case_prod_beta getOrCreate_fst_otp)
  next
    case False
    with Some show ?thesis
      by (simp add: handleVerify_def Get_def Let_def case_prod_beta getOrCreate_fst_otp
          split: option.split)
  qed
qed

lemma register_stores:
  "req_Email req \<noteq> [] \<Longrightarrow>
   handleRegister b0 b1 b2 now s (Some req) =
     (RegisterOK ''OTP sent to email'',
      s(otpKey (req_Email req) \<mapsto>
          OTPDoc \<lparr>otp = generateOTP b0 b1 b2, expires = Unix (now + 5 * Minute), attempts = 0\<rparr>))"
  by (simp add: handleRegister_def Put_def)

lemma test_store_otp: "test_store (otpKey test_email) = Some (OTPDoc test_otp)"
  by (simp add: test_store_def)

text \<open>
  C2. When the store holds an OTP record for the email that has not expired
  (\<open>Unix now \<le> expires\<close>), verifying with the stored code succeeds and leaves no
  record under the email's OTP key; any later verification for that email with the
  same code then takes the record-absent return (NotFound) and changes nothing.
\<close>

theorem verify_single_use:
  assumes "s (otpKey email) = Some (OTPDoc d)" and "Unix now \<le> expires d"
  shows "\<exists>a s'. handleVerify cfg now f t_iat t_exp s (Some \<lparr>ver_Email = email, ver_OTP = otp d\<rparr>)
                   = (Verified a, s') \<and>
           s' (otpKey email) = None \<and>
           handleVerify cfg' now' f' t_iat' t_exp' s' (Some \<lparr>ver_Email = email, ver_OTP = otp d\<rparr>)
                   = (NotFound, s')"
proof -
  obtain c s1 where g: "getOrCreateClientWithInfrastructure (environ cfg) f s email = (c, s1)"
    by (cases "getOrCreateClientWithInfrastructure (environ cfg) f s email")
  let ?s' = "Delete s1 (otpKey email)"
  have 1: "handleVerify cfg now f t_iat t_exp s (Some \<lparr>ver_Email = email, ver_OTP = otp d\<rparr>) =
     (Verified \<lparr>auth_ClientID = ID c,
                 auth_Token = generateToken (secret cfg) t_iat t_exp (ID c),
                 auth_Environment = Environment c\<rparr>, ?s')"
    using assms handleVerify_success [of s email d now cfg f t_iat t_exp] by (simp add: g)
  have 2: "?s' (otpKey email) = None" by (simp add: Delete_def)
  from 2 have 3: "handleVerify cfg' now' f' t_iat' t_exp' ?s' (Some \<lparr>ver_Email = email, ver_OTP = otp d\<rparr>)
                   = (NotFound, ?s')" by (rule handleVerify_absent)
  from 1 2 3 show ?thesis by blast
qed

text \<open>
  C2 at the record of the test: verified 100 seconds after issue, and once more
  100 seconds later.
\<close>

theorem verify_single_use_witness:
  "test_store (otpKey test_email) = Some (OTPDoc test_otp) \<and>
   Unix 1700000100000000000 \<le> expires test_otp \<and>
   (\<exists>a s'. handleVerify test_cfg 1700000100000000000 test_fresh 0 0 test_store
               (Some \<lparr>ver_Email = test_email, ver_OTP = otp test_otp\<rparr>) = (Verified a, s') \<and>
           s' (otpKey test_email) = None \<and>
           handleVerify test_cfg 1700000200000000000 test_fresh 0 0 s'
               (Some \<lparr>ver_Email = test_email, ver_OTP = otp test_otp\<rparr>) = (NotFound, s'))"
proof -
  note h1 = test_store_otp
  have h2: "Unix 1700000100000000000 \<le> expires test_otp"
    by (simp add: Unix_def test_otp_def)
  from h1 h2
    verify_single_use [where s = test_store and email = test_email and d = test_otp
      and now = 1700000100000000000 and cfg = test_cfg and f = test_fresh and t_iat = 0
      and t_exp = 0 and cfg' = test_cfg and now' = 1700000200000000000 and f' = test_fresh
      and t_iat' = 0 and t_exp' = 0]
  show ?thesis by blast
qed

lemma Unix_gt_iff: "e < Unix now \<longleftrightarrow> (e + 1) * 1000000000 \<le> now"
proof -
  define q where "q = now div 1000000000"
  define r where "r = now mod 1000000000"
  have n: "now = 1000000000 * q + r" by (simp add: q_def r_def)
  have r: "0 \<le> r" "r < 1000000000" by (simp_all add: r_def)
  have "e < q \<longleftrightarrow> (e + 1) * 1000000000 \<le> now"
    using n r by auto
  then show ?thesis by (simp add: Unix_def q_def)
qed

text \<open>
  C5 (amended). Expiry is compared in whole seconds: \<open>time.Now().Unix() > expires\<close>.
  When the clock is at least one whole second past the stored \<open>expires_at\<close>
  (\<open>now \<ge> expires_at + 1s\<close>, which is \<open>Unix now > expires\<close>), a verification that
  presents the stored code fails with Expired and deletes the record, so that any
  later verification for that email, whatever the candidate, takes the record-absent
  return (NotFound).
\<close>

theorem verify_expired:
  assumes "s (otpKey email) = Some (OTPDoc d)" and "(expires d + 1) * 1000000000 \<le> now"
  shows "expires d < Unix now \<and>
         handleVerify cfg now f t_iat t_exp s (Some \<lparr>ver_Email = email, ver_OTP = otp d\<rparr>) =
           (Expired, Delete s (otpKey email)) \<and>
         Delete s (otpKey email) (otpKey email) = None \<and>
         handleVerify cfg' now' f' t_iat' t_exp' (Delete s (otpKey email))
             (Some \<lparr>ver_Email = email, ver_OTP = cand\<rparr>) = (NotFound, Delete s (otpKey email))"
proof -
  from assms(2) have 0: "expires d < Unix now" by (simp add: Unix_gt_iff)
  have 1: "handleVerify cfg now f t_iat t_exp s (Some \<lparr>ver_Email = email, ver_OTP = otp d\<rparr>) =
           (Expired, Delete s (otpKey email))"
    using assms(1) 0 by (simp add: handleVerify_def Get_def)
  have 2: "Delete s (otpKey email) (otpKey email) = None" by (simp add: Delete_def)
  from 2 have "handleVerify cfg' now' f' t_iat' t_exp' (Delete s (otpKey email))
             (Some \<lparr>ver_Email = email, ver_OTP = cand\<rparr>) = (NotFound, Delete s (otpKey email))"
    by (rule handleVerify_absent)
  with 0 1 2 show ?thesis by simp
qed

text \<open>
  C5 (amended) at the record of the test, whose \<open>expires_at\<close> is 1700000300: at the
  first instant of second 1700000301.
\<close>

theorem verify_expired_witness:
  "test_store (otpKey test_email) = Some (OTPDoc test_otp) \<and>
   (expires test_otp + 1) * 1000000000 \<le> 1700000301000000000 \<and>
   handleVerify test_cfg 1700000301000000000 test_fresh 0 0 test_store
       (Some \<lparr>ver_Email = test_email, ver_OTP = otp test_otp\<rparr>) =
     (Expired, Delete test_store (otpKey test_email)) \<and>
   Delete test_store (otpKey test_email) (otpKey test_email) = None \<and>
   handleVerify test_cfg 1700000500000000000 test_fresh 0 0 (Delete test_store (otpKey test_email))
       (Some \<lparr>ver_Email = test_email, ver_OTP = otp test_otp\<rparr>) =
     (NotFound, Delete test_store (otpKey test_email))"
proof -
  note h1 = test_store_otp
  have h2: "(expires test_otp + 1) * 1000000000 \<le> 1700000301000000000"
    by (simp add: test_otp_def)
  from h1 h2
    verify_expired [where s = test_store and email = test_email and d = test_otp
      and now = 1700000301000000000 and cfg = test_cfg and f = test_fresh and t_iat = 0
      and t_exp = 0 and cfg' = test_cfg and now' = 1700000500000000000 and f' = test_fresh
      and t_iat' = 0 and t_exp' = 0 and cand = "otp test_otp"]
  show ?thesis by blast
qed

text \<open>
  C5 as stated fails. The record of the test has \<open>expires_at\<close> 1700000300. One
  nanosecond before second 1700000301 the clock is past \<open>expires_at\<close>, yet its whole
  seconds are not: a verification with the stored code succeeds, it is not answered
  by Expired.
\<close>

theorem verify_within_last_second:
  "otp test_otp = ''123456'' \<and>
   expires test_otp * 1000000000 < 1700000300999999999 \<and>
   fst (handleVerify test_cfg 1700000300999999999 test_fresh 0 0 test_store
          (Some \<lparr>ver_Email = test_email, ver_OTP = ''123456''\<rparr>)) \<noteq> Expired \<and>
   (\<exists>a. fst (handleVerify test_cfg 1700000300999999999 test_fresh 0 0 test_store
               (Some \<lparr>ver_Email = test_email, ver_OTP = ''123456''\<rparr>)) = Verified a)"
proof -
  have u: "Unix 1700000300999999999 \<le> expires test_otp"
    by (simp add: Unix_def test_otp_def)
  have o: "otp test_otp = ''123456''" by (simp add: test_otp_def)
  from test_store_otp u
    handleVerify_success [where s = test_store and email = test_email and d = test_otp
      and now = 1700000300999999999 and cfg = test_cfg and f = test_fresh and t_iat = 0
      and t_exp = 0]
  have "\<exists>a. fst (handleVerify test_cfg 1700000300999999999 test_fresh 0 0 test_store
               (Some \<lparr>ver_Email = test_email, ver_OTP = ''123456''\<rparr>)) = Verified a"
    by (simp add: o case_prod_beta)
  moreover have "expires test_otp * 1000000000 < 1700000300999999999"
    by (simp add: test_otp_def)
  ultimately show ?thesis using o by auto
qed

text \<open>
  C10. When the candidate differs from the stored code, verification takes the
  mismatch return and the store is left exactly as it was. The comparison comes
  before the expiry check, so this holds at every clock reading: against an expired
  record the answer is Mismatch, not Expired, and the record remains.
\<close>

theorem verify_mismatch_keeps_store:
  assumes "s (otpKey email) = Some (OTPDoc d)" and "cand \<noteq> otp d"
  shows "handleVerify cfg now f t_iat t_exp s (Some \<lparr>ver_Email = email, ver_OTP = cand\<rparr>) =
           (Mismatch, s)"
proof -
  from assms(1) have "Get s (otpKey email) = Inr (OTPDoc d)" by (simp add: Get_def)
  moreover from assms(2) have "otp_field (OTPDoc d) \<noteq> Some cand" by auto
  ultimately show ?thesis by (simp add: handleVerify_def)
qed

text \<open>C10 at the record of the test, 600 seconds after its expiry.\<close>

theorem verify_mismatch_keeps_store_witness:
  "test_store (otpKey test_email) = Some (OTPDoc test_otp) \<and>
   ''111111'' \<noteq> otp test_otp \<and>
   expires test_otp < Unix 1700000900000000000 \<and>
   handleVerify test_cfg 1700000900000000000 test_fresh 0 0 test_store
       (Some \<lparr>ver_Email = test_email, ver_OTP = ''111111''\<rparr>) = (Mismatch, test_store)"
proof -
  note h1 = test_store_otp
  have h2: "''111111'' \<noteq> otp test_otp"
    by (simp add: test_otp_def)
  have h3: "expires test_otp < Unix 1700000900000000000"
    by (simp add: Unix_def test_otp_def)
  from h1 h2 h3
    verify_mismatch_keeps_store [where s = test_store and email = test_email and d = test_otp
      and cand = "''111111''" and now = 1700000900000000000 and cfg = test_cfg
      and f = test_fresh and t_iat = 0 and t_exp = 0]
  show ?thesis by blast
qed

text \<open>
  C9 (amended). The OTP record is stored with \<open>attempts = 0\<close> at issue. No
  verification updates it: after \<open>handleVerify\<close> every OTP key holds what it held
  before or nothing. And no value of \<open>attempts\<close> gates verification: the outcome is
  the same whatever the stored count is.
\<close>

theorem attempts_tracked_not_updated:
  assumes "req_Email req \<noteq> []"
  shows "snd (handleRegister x y z t_reg s_reg (Some req)) (otpKey (req_Email req)) =
           Some (OTPDoc \<lparr>otp = generateOTP x y z, expires = Unix (t_reg + 5 * Minute), attempts = 0\<rparr>) \<and>
         (snd (handleVerify cfg now f t_iat t_exp s r) (otpKey e) = s (otpKey e) \<or>
          snd (handleVerify cfg now f t_iat t_exp s r) (otpKey e) = None) \<and>
         fst (handleVerify cfg now f t_iat t_exp (s(otpKey e \<mapsto> OTPDoc (d\<lparr>attempts := a\<rparr>))) r) =
         fst (handleVerify cfg now f t_iat t_exp (s(otpKey e \<mapsto> OTPDoc d)) r)"
proof (intro conjI)
  show "snd (handleRegister x y z t_reg s_reg (Some req)) (otpKey (req_Email req)) =
           Some (OTPDoc \<lparr>otp = generateOTP x y z, expires = Unix (t_reg + 5 * Minute), attempts = 0\<rparr>)"
    using assms by (simp add: register_stores)
  show "snd (handleVerify cfg now f t_iat t_exp s r) (otpKey e) = s (otpKey e) \<or>
          snd (handleVerify cfg now f t_iat t_exp s r) (otpKey e) = None"
    by (rule handleVerify_otp_key)
  show "fst (handleVerify cfg now f t_iat t_exp (s(otpKey e \<mapsto> OTPDoc (d\<lparr>attempts := a\<rparr>))) r) =
         fst (handleVerify cfg now f t_iat t_exp (s(otpKey e \<mapsto> OTPDoc d)) r)"
    by (rule attempts_never_gate)
qed

text \<open>
  C9 (amended) at a registration of the test email, and at the record of the test
  with its count set to 1000.
\<close>

theorem attempts_tracked_not_updated_witness:
  "req_Email \<lparr>req_Email = test_email\<rparr> \<noteq> [] \<and>
   snd (handleRegister 1 134 160 1700000000000000000 Map.empty (Some \<lparr>req_Email = test_email\<rparr>))
       (otpKey (req_Email \<lparr>req_Email = test_email\<rparr>)) =
     Some (OTPDoc \<lparr>otp = generateOTP 1 134 160,
                    expires = Unix (1700000000000000000 + 5 * Minute), attempts = 0\<rparr>) \<and>
   fst (handleVerify test_cfg 1700000100000000000 test_fresh 0 0
          (Map.empty(otpKey test_email \<mapsto> OTPDoc (test_otp\<lparr>attempts := 1000\<rparr>)))
          (Some \<lparr>ver_Email = test_email, ver_OTP = ''123456''\<rparr>)) =
   fst (handleVerify test_cfg 1700000100000000000 test_fresh 0 0
          (Map.empty(otpKey test_email \<mapsto> OTPDoc test_otp))
          (Some \<lparr>ver_Email = test_email, ver_OTP = ''123456''\<rparr>))"
proof -
  have h: "req_Email \<lparr>req_Email = test_email\<rparr> \<noteq> []" by (simp add: test_email_def)
  from h
    attempts_tracked_not_updated [where req = "\<lparr>req_Email = test_email\<rparr>" and x = 1
      and y = 134 and z = 160 and t_reg = 1700000000000000000 and s_reg = Map.empty
      and cfg = test_cfg and now = 1700000100000000000 and f = test_fresh and t_iat = 0
      and t_exp = 0 and s = Map.empty and e = test_email and d = test_otp and a = 1000
      and r = "Some \<lparr>ver_Email = test_email, ver_OTP = ''123456''\<rparr>"]
  show ?thesis by blast
qed

text \<open>
  C9 as stated fails: a verification attempt does not update the count. After a
  failed attempt on the record of the test the stored count is still 0.
\<close>

theorem attempts_unchanged_by_failed_attempt:
  "fst (handleVerify test_cfg 1700000100000000000 test_fresh 0 0 test_store
          (Some \<lparr>ver_Email = test_email, ver_OTP = ''000000''\<rparr>)) = Mismatch \<and>
   snd (handleVerify test_cfg 1700000100000000000 test_fresh 0 0 test_store
          (Some \<lparr>ver_Email = test_email, ver_OTP = ''000000''\<rparr>)) (otpKey test_email) =
     Some (OTPDoc \<lparr>otp = ''123456'', expires = 1700000300, attempts = 0\<rparr>)"
  by (simp add: handleVerify_def Get_def test_store_def test_otp_def)

section \<open>Client registry\<close>

lemma getClient_iff:
  "getClientInfrastructure s i = Some c \<longleftrightarrow> (\<exists>d. s (idKey i) = Some d \<and> c = unmarshal_ClientData d)"
  by (auto simp: getClientInfrastructure_def Get_def split: option.split)





lemma json_Infrastructure_times [simp]:
  "infra_Created (json_Infrastructure m) = infra_Created m"
  "LastUpdated (json_Infrastructure m) = LastUpdated m"
  by (simp_all add: json_Infrastructure_def)

lemma json_Infrastructure_LastUpdated:
  "json_Infrastructure (m\<lparr>LastUpdated := t\<rparr>) = (json_Infrastructure m)\<lparr>LastUpdated := t\<rparr>"
  by (simp add: json_Infrastructure_def)


lemma json_Infrastructure_zero: "json_Infrastructure zero_Infrastructure = zero_Infrastructure"
  by (simp add: json_Infrastructure_def zero_Infrastructure_def)

lemma Marshal_ok_iff:
  "Marshal_ClientData c = ClientDoc c \<longleftrightarrow>
     Time_ok (infra_Created (Infrastructure c)) \<and> Time_ok (LastUpdated (Infrastructure c)) \<and>
     json_Infrastructure (Infrastructure c) = Infrastructure c"
  by (cases c) (auto simp: Marshal_ClientData_def)


lemma Marshal_touched:
  "Marshal_ClientData c = ClientDoc c \<Longrightarrow>
   Marshal_ClientData (c\<lparr>LastSeen := now\<rparr>) = ClientDoc (c\<lparr>LastSeen := now\<rparr>)"
  by (simp add: Marshal_ok_iff)

lemma Marshal_replaced:
  "Time_ok (infra_Created m) \<Longrightarrow>
   Marshal_ClientData (c\<lparr>Infrastructure := m\<lparr>LastUpdated := Instant now\<rparr>\<rparr>) =
     ClientDoc (c\<lparr>Infrastructure := (json_Infrastructure m)\<lparr>LastUpdated := Instant now\<rparr>\<rparr>)"
  by (simp add: Marshal_ClientData_def json_Infrastructure_LastUpdated)



lemma updateClientLastSeen_eq:
  "getClientInfrastructure s i = Some c \<Longrightarrow>
   updateClientLastSeen now s i =
     s(idKey i \<mapsto> Marshal_ClientData (c\<lparr>LastSeen := now\<rparr>),
       clientKey (Email c) \<mapsto> Marshal_ClientData (c\<lparr>LastSeen := now\<rparr>))"
  by (simp add: updateClientLastSeen_def Put_def Let_def)

lemma updateClientInfrastructure_eq:
  "getClientInfrastructure s i = Some c \<Longrightarrow>
   updateClientInfrastructure now s i m =
     s(idKey i \<mapsto> Marshal_ClientData (c\<lparr>Infrastructure := m\<lparr>LastUpdated := Instant now\<rparr>\<rparr>),
       clientKey (Email c) \<mapsto>
         Marshal_ClientData (c\<lparr>Infrastructure := m\<lparr>LastUpdated := Instant now\<rparr>\<rparr>))"
  by (simp add: updateClientInfrastructure_def Put_def Let_def)

lemma update_absent:
  "getClientInfrastructure s i = None \<Longrightarrow> updateClientLastSeen now s i = s"
  "getClientInfrastructure s i = None \<Longrightarrow> updateClientInfrastructure now s i m = s"
  by (simp_all add: updateClientLastSeen_def updateClientInfrastructure_def)

lemma getOrCreate_existing:
  "s (clientKey email) = Some d \<Longrightarrow>
   getOrCreateClientWithInfrastructure env f s email = (unmarshal_ClientData d, s)"
  by (simp add: getOrCreateClientWithInfrastructure_def Get_def)

lemma getOrCreate_new:
  "s (clientKey email) = None \<Longrightarrow>
   getOrCreateClientWithInfrastructure env f s email =
     (new_client env f email,
      s(clientKey email \<mapsto> ClientDoc (new_client env f email),
        idKey (client_uuid f) \<mapsto> ClientDoc (new_client env f email),
        envKey (environment_uuid f) \<mapsto> EnvDoc (Environment (new_client env f email))))"
  by (simp add: getOrCreateClientWithInfrastructure_def new_client_def Get_def Put_def Let_def
      Marshal_ClientData_def json_Infrastructure_def)

lemma new_client_fields [simp]:
  "ID (new_client env f email) = client_uuid f"
  "Email (new_client env f email) = email"
  "LastSeen (new_client env f email) = t_last_seen f"
  "LastUpdated (Infrastructure (new_client env f email)) = Instant (t_infra_updated f)"
  "infra_Created (Infrastructure (new_client env f email)) = Instant (t_infra_created f)"
  by (simp_all add: new_client_def getOrCreateClientWithInfrastructure_def Get_def Let_def)

lemma Marshal_new_client:
  "Marshal_ClientData (new_client env f email) = ClientDoc (new_client env f email)"
  by (simp add: new_client_def getOrCreateClientWithInfrastructure_def Get_def Let_def
      Marshal_ClientData_def json_Infrastructure_def)

lemma test_client_store_eq:
  "test_client_store =
     Map.empty(clientKey test_email \<mapsto> ClientDoc (new_client Map.empty test_fresh test_email),
        idKey (client_uuid test_fresh) \<mapsto> ClientDoc (new_client Map.empty test_fresh test_email),
        envKey (environment_uuid test_fresh) \<mapsto>
          EnvDoc (Environment (new_client Map.empty test_fresh test_email)))"
  by (simp add: test_client_store_def test_cfg_def getOrCreate_new)

lemma test_client_lookup:
  "getClientInfrastructure test_client_store (client_uuid test_fresh) =
     Some (new_client Map.empty test_fresh test_email)"
  by (simp add: test_client_store_eq getClient_iff)

lemma test_manifest_ok: "Time_ok (infra_Created test_manifest)"
  by (simp add: test_manifest_def)

lemma test_manifest_reads_back: "json_Infrastructure test_manifest = test_manifest"
  by (simp add: test_manifest_def json_Infrastructure_def)


text \<open>
  C3. Two calls of \<open>getOrCreate\<close> for the same email, one after the other on the same
  store, return the same client identifier, indeed the same aggregate. The second
  call returns what is stored under the by-email key and leaves the store as the
  first call left it: no client, environment or store entry is created.
\<close>

theorem getOrCreate_idempotent:
  "(let (c1, s1) = getOrCreateClientWithInfrastructure env f s email;
        (c2, s2) = getOrCreateClientWithInfrastructure env' f' s1 email
    in ID c2 = ID c1 \<and> c2 = c1 \<and> s2 = s1 \<and>
       (\<exists>d. s1 (clientKey email) = Some d \<and> c2 = unmarshal_ClientData d))"
proof (cases "s (clientKey email)")
  case None
  let ?c = "new_client env f email"
  let ?s1 = "s(clientKey email \<mapsto> ClientDoc ?c, idKey (client_uuid f) \<mapsto> ClientDoc ?c,
               envKey (environment_uuid f) \<mapsto> EnvDoc (Environment ?c))"
  have 1: "getOrCreateClientWithInfrastructure env f s email = (?c, ?s1)"
    using None by (rule getOrCreate_new)
  have "?s1 (clientKey email) = Some (ClientDoc ?c)" by simp
  then have 2: "getOrCreateClientWithInfrastructure env' f' ?s1 email = (unmarshal_ClientData (ClientDoc ?c), ?s1)"
    by (rule getOrCreate_existing)
  show ?thesis unfolding 1 by (simp add: 2)
next
  case (Some d)
  then have 1: "getOrCreateClientWithInfrastructure env f s email = (unmarshal_ClientData d, s)"
    by (rule getOrCreate_existing)
  from Some have 2: "getOrCreateClientWithInfrastructure env' f' s email = (unmarshal_ClientData d, s)"
    by (rule getOrCreate_existing)
  show ?thesis unfolding 1 by (simp add: 2 Some)
qed

text \<open>C3 on the empty store, for the email of the test.\<close>

theorem getOrCreate_idempotent_witness:
  "(let (c1, s1) = getOrCreateClientWithInfrastructure Map.empty test_fresh Map.empty test_email;
        (c2, s2) = getOrCreateClientWithInfrastructure Map.empty test_fresh s1 test_email
    in ID c2 = ID c1 \<and> c2 = c1 \<and> s2 = s1 \<and>
       (\<exists>d. s1 (clientKey test_email) = Some d \<and> c2 = unmarshal_ClientData d))"
  by (rule getOrCreate_idempotent)

subsection \<open>The infrastructure manifest\<close>

lemma replace_get_eq:
  assumes "getClientInfrastructure s clientID = Some c" and "Time_ok (infra_Created m)"
  shows "getClientInfrastructure (updateClientInfrastructure now s clientID m) clientID =
           Some (c\<lparr>Infrastructure := (json_Infrastructure m)\<lparr>LastUpdated := Instant now\<rparr>\<rparr>)"
  by (simp add: updateClientInfrastructure_eq [OF assms(1)] Marshal_replaced [OF assms(2)]
      getClientInfrastructure_def Get_def)


text \<open>
  C6 (amended). For an existing client and a manifest \<open>m\<close> that \<open>json.Marshal\<close>
  accepts, \<open>replace\<close> followed by \<open>get\<close> returns the stored aggregate with its manifest
  replaced by \<open>m\<close> as its JSON encoding reads back (\<open>json_Infrastructure m\<close>: the four
  identifier lists and \<open>created_at\<close> of \<open>m\<close>, every byte that is not UTF-8 replaced by
  U+FFFD), nothing of the previous manifest merged in, and with \<open>last_updated_at\<close>
  set to the clock reading of the write, whatever \<open>m\<close> carried there. The stored
  \<open>last_updated_at\<close> is then that reading: it is after the previous value exactly when
  the reading is.
\<close>

theorem replace_then_get:
  assumes "getClientInfrastructure s clientID = Some c" and "Time_ok (infra_Created m)"
  shows "getClientInfrastructure (updateClientInfrastructure now s clientID m) clientID =
           Some (c\<lparr>Infrastructure := (json_Infrastructure m)\<lparr>LastUpdated := Instant now\<rparr>\<rparr>) \<and>
         LastUpdated ((json_Infrastructure m)\<lparr>LastUpdated := Instant now\<rparr>) = Instant now \<and>
         (Before (LastUpdated (Infrastructure c))
                 (LastUpdated ((json_Infrastructure m)\<lparr>LastUpdated := Instant now\<rparr>))
            \<longleftrightarrow> Before (LastUpdated (Infrastructure c)) (Instant now))"
proof (intro conjI)
  show "getClientInfrastructure (updateClientInfrastructure now s clientID m) clientID =
           Some (c\<lparr>Infrastructure := (json_Infrastructure m)\<lparr>LastUpdated := Instant now\<rparr>\<rparr>)"
    using assms by (rule replace_get_eq)
  show "LastUpdated ((json_Infrastructure m)\<lparr>LastUpdated := Instant now\<rparr>) = Instant now" by simp
  show "Before (LastUpdated (Infrastructure c))
               (LastUpdated ((json_Infrastructure m)\<lparr>LastUpdated := Instant now\<rparr>))
            \<longleftrightarrow> Before (LastUpdated (Infrastructure c)) (Instant now)"
    by simp
qed

text \<open>
  C6 (amended) at the client of the test, 50 seconds after its creation. The manifest
  of the test is valid UTF-8 and reads back as it is.
\<close>

theorem replace_then_get_witness:
  "getClientInfrastructure test_client_store (client_uuid test_fresh) =
     Some (new_client Map.empty test_fresh test_email) \<and>
   Time_ok (infra_Created test_manifest) \<and>
   getClientInfrastructure
     (updateClientInfrastructure 1700000050000000000 test_client_store (client_uuid test_fresh)
        test_manifest) (client_uuid test_fresh) =
     Some ((new_client Map.empty test_fresh test_email)
             \<lparr>Infrastructure := test_manifest\<lparr>LastUpdated := Instant 1700000050000000000\<rparr>\<rparr>) \<and>
   Before (LastUpdated (Infrastructure (new_client Map.empty test_fresh test_email)))
     (LastUpdated (test_manifest\<lparr>LastUpdated := Instant 1700000050000000000\<rparr>))"
proof -
  note h1 = test_client_lookup
  note h2 = test_manifest_ok
  have b: "Before (LastUpdated (Infrastructure (new_client Map.empty test_fresh test_email)))
             (Instant 1700000050000000000)"
    by (simp add: test_fresh_def)
  note r = replace_then_get [where s = test_client_store and clientID = "client_uuid test_fresh"
      and c = "new_client Map.empty test_fresh test_email" and now = 1700000050000000000
      and m = test_manifest]
  from h1 h2 b r [unfolded test_manifest_reads_back]
  show ?thesis by blast
qed

text \<open>
  C6 as stated fails. The client of the test has \<open>last_updated_at\<close> 1700000000000000003.
  A write whose clock reads ten seconds less (the wall clock was set back) stores a
  manifest that is not the one sent, since its \<open>last_updated_at\<close> is overwritten, and
  the stored \<open>last_updated_at\<close> does not advance.
\<close>

theorem replace_not_exact_nor_advancing:
  "map_option (LastUpdated \<circ> Infrastructure)
     (getClientInfrastructure test_client_store (client_uuid test_fresh)) =
     Some (Instant 1700000000000000003) \<and>
   map_option Infrastructure
     (getClientInfrastructure
        (updateClientInfrastructure 1699999990000000000 test_client_store (client_uuid test_fresh)
           test_manifest) (client_uuid test_fresh)) =
     Some (test_manifest\<lparr>LastUpdated := Instant 1699999990000000000\<rparr>) \<and>
   test_manifest\<lparr>LastUpdated := Instant 1699999990000000000\<rparr> \<noteq> test_manifest \<and>
   \<not> Before (Instant 1700000000000000003)
         (LastUpdated (test_manifest\<lparr>LastUpdated := Instant 1699999990000000000\<rparr>))"
proof -
  have 1: "map_option (LastUpdated \<circ> Infrastructure)
     (getClientInfrastructure test_client_store (client_uuid test_fresh)) =
     Some (Instant 1700000000000000003)"
    by (simp add: test_client_lookup) (simp add: test_fresh_def)
  have 2: "map_option Infrastructure
     (getClientInfrastructure
        (updateClientInfrastructure 1699999990000000000 test_client_store (client_uuid test_fresh)
           test_manifest) (client_uuid test_fresh)) =
     Some (test_manifest\<lparr>LastUpdated := Instant 1699999990000000000\<rparr>)"
    using replace_get_eq [OF test_client_lookup test_manifest_ok, of 1699999990000000000]
    by (simp add: test_manifest_reads_back)
  have 3: "test_manifest\<lparr>LastUpdated := Instant 1699999990000000000\<rparr> \<noteq> test_manifest"
    by (simp add: test_manifest_def)
  from 1 2 3 show ?thesis by simp
qed

subsection \<open>The two views\<close>
















section \<open>Session tokens\<close>

lemma token_expiry:
  "validateToken key now (generateToken key t_iat t_exp clientID) =
     (if now \<le> t_exp + 24 * Hour then Inr clientID else Inl ''invalid token'')"
  by (simp add: validateToken_def generateToken_def SignedString_def ParseWithClaims_def)

lemma token_other_key:
  "key' \<noteq> key \<Longrightarrow>
   validateToken key' now (generateToken key t_iat t_exp clientID) = Inl ''invalid token''"
  by (simp add: validateToken_def generateToken_def SignedString_def ParseWithClaims_def)

lemma token_claims:
  "generateToken key t_iat t_exp clientID =
     Signed key \<lparr>Subject = clientID, IssuedAt = t_iat, ExpiresAt = t_exp + 24 * Hour\<rparr>"
  by (simp add: generateToken_def SignedString_def)

text \<open>
  C4 (amended). The token of \<open>issue\<close> carries issued_at, the first clock reading of the
  issue, and expires_at, 24 hours after the second reading. When the clock did not
  go back between the two readings, validating the token under the same key returns
  the client identifier as long as \<open>now \<le> expires_at\<close>, in particular as long as
  \<open>now \<le> issued_at + 24h\<close>, and fails once \<open>now > expires_at\<close>.
\<close>

theorem token_valid_until_expiry:
  assumes "t_iat \<le> t_exp"
  shows "generateToken key t_iat t_exp clientID =
           Signed key \<lparr>Subject = clientID, IssuedAt = t_iat, ExpiresAt = t_exp + 24 * Hour\<rparr> \<and>
         validateToken key now (generateToken key t_iat t_exp clientID) =
           (if now \<le> t_exp + 24 * Hour then Inr clientID else Inl ''invalid token'') \<and>
         (now \<le> t_iat + 24 * Hour \<longrightarrow>
            validateToken key now (generateToken key t_iat t_exp clientID) = Inr clientID)"
proof (intro conjI impI)
  show "generateToken key t_iat t_exp clientID =
           Signed key \<lparr>Subject = clientID, IssuedAt = t_iat, ExpiresAt = t_exp + 24 * Hour\<rparr>"
    by (rule token_claims)
  show "validateToken key now (generateToken key t_iat t_exp clientID) =
           (if now \<le> t_exp + 24 * Hour then Inr clientID else Inl ''invalid token'')"
    by (rule token_expiry)
  assume "now \<le> t_iat + 24 * Hour"
  with assms have "now \<le> t_exp + 24 * Hour" by simp
  then show "validateToken key now (generateToken key t_iat t_exp clientID) = Inr clientID"
    by (simp add: token_expiry)
qed

text \<open>
  C4 (amended) for a token issued with two readings 200 nanoseconds apart: valid 12
  hours later, and invalid 25 hours later.
\<close>

theorem token_valid_until_expiry_witness:
  "(999999900 :: int) \<le> 1000000100 \<and>
   validateToken ''k'' (12 * Hour) (generateToken ''k'' 999999900 1000000100 ''id'') = Inr ''id'' \<and>
   validateToken ''k'' (25 * Hour) (generateToken ''k'' 999999900 1000000100 ''id'') =
     Inl ''invalid token''"
proof -
  have h: "(999999900 :: int) \<le> 1000000100" by simp
  have a: "validateToken ''k'' (12 * Hour) (generateToken ''k'' 999999900 1000000100 ''id'') =
             Inr ''id''"
    using token_valid_until_expiry [OF h, of "''k''" "''id''" "12 * Hour", THEN conjunct2,
        THEN conjunct1]
    by (simp add: Hour_def Minute_def)
  have b: "validateToken ''k'' (25 * Hour) (generateToken ''k'' 999999900 1000000100 ''id'') =
             Inl ''invalid token''"
    using token_valid_until_expiry [OF h, of "''k''" "''id''" "25 * Hour", THEN conjunct2,
        THEN conjunct1]
    by (simp add: Hour_def Minute_def)
  from h a b show ?thesis by (intro conjI)
qed

text \<open>
  C4 as stated fails. \<open>generateToken\<close> reads the clock once for issued_at and once more
  for expires_at. With the readings 0.9999999 s and 1.0000001 s the token has
  issued_at 0.9999999 s and expires_at 24 h + 1.0000001 s, and at 24 h + 0.99999995 s,
  which is after issued_at + 24h, it still validates.
\<close>

theorem token_valid_after_issue_window:
  "generateToken ''k'' 999999900 1000000100 ''id'' =
     Signed ''k'' \<lparr>Subject = ''id'', IssuedAt = 999999900, ExpiresAt = 1000000100 + 24 * Hour\<rparr> \<and>
   (999999900 :: int) + 24 * Hour < 24 * Hour + 999999950 \<and>
   validateToken ''k'' (24 * Hour + 999999950) (generateToken ''k'' 999999900 1000000100 ''id'') =
     Inr ''id''"
proof (intro conjI)
  show "generateToken ''k'' 999999900 1000000100 ''id'' =
     Signed ''k'' \<lparr>Subject = ''id'', IssuedAt = 999999900, ExpiresAt = 1000000100 + 24 * Hour\<rparr>"
    by (rule token_claims)
  show "(999999900 :: int) + 24 * Hour < 24 * Hour + 999999950" by simp
  show "validateToken ''k'' (24 * Hour + 999999950)
          (generateToken ''k'' 999999900 1000000100 ''id'') = Inr ''id''"
    by (simp add: token_expiry)
qed

section \<open>Last seen\<close>

lemma handleConfig_store: "snd (handleConfig cfg t_validate s authHeader) = s"
  by (simp add: handleConfig_def split: option.split sum.split)

lemma handleGetInfrastructure_store: "snd (handleGetInfrastructure cfg t_validate s authHeader) = s"
  by (simp add: handleGetInfrastructure_def split: option.split sum.split)

lemma updateClientInfrastructure_last_seen:
  assumes "Time_ok (infra_Created m)"
  shows "map_option LastSeen (getClientInfrastructure (updateClientInfrastructure now s i m) j) =
         map_option LastSeen (getClientInfrastructure s j)"
proof (cases "getClientInfrastructure s i")
  case None
  then show ?thesis by (simp add: update_absent)
next
  case (Some c)
  then show ?thesis
    by (cases "j = i")
      (simp_all add: updateClientInfrastructure_eq Marshal_replaced [OF assms]
        getClientInfrastructure_def Get_def)
qed

lemma handleInfrastructure_last_seen:
  assumes "Time_ok (infra_Created (upd_Infrastructure req))"
  shows "map_option LastSeen
     (getClientInfrastructure (snd (handleInfrastructure cfg t_validate now s authHeader (Some req))) j) =
   map_option LastSeen (getClientInfrastructure s j)"
  by (simp add: handleInfrastructure_def updateClientInfrastructure_last_seen [OF assms]
      split: option.split sum.split)

text \<open>
  \<open>/connect\<close> with a valid token of an existing client, stored as \<open>json.Marshal\<close>
  writes it, sets the stored \<open>last_seen_at\<close> to the clock reading of the update.
\<close>

lemma connect_updates_last_seen:
  assumes "validateToken (secret cfg) t_validate token = Inr clientID"
    and "getClientInfrastructure s clientID = Some c"
    and "Marshal_ClientData c = ClientDoc c"
  shows "handleConnect cfg t_validate now s (Some token) =
           (ConnectOK clientID (Environment c), updateClientLastSeen now s clientID) \<and>
         getClientInfrastructure (updateClientLastSeen now s clientID) clientID =
           Some (c\<lparr>LastSeen := now\<rparr>)"
proof
  show "handleConnect cfg t_validate now s (Some token) =
           (ConnectOK clientID (Environment c), updateClientLastSeen now s clientID)"
    using assms(1,2) by (simp add: handleConnect_def)
  show "getClientInfrastructure (updateClientLastSeen now s clientID) clientID =
           Some (c\<lparr>LastSeen := now\<rparr>)"
    by (simp add: updateClientLastSeen_eq [OF assms(2)] Marshal_touched [OF assms(3)]
        getClientInfrastructure_def Get_def)
qed

lemma test_token_valid:
  "validateToken (secret test_cfg) 1700000100000000000 test_token = Inr (client_uuid test_fresh)"
  by (simp add: test_token_def token_expiry Hour_def Minute_def)

text \<open>
  C8, the code at the client of the test, whose \<open>last_seen_at\<close> is
  1700000000000000005, with its valid token 100 seconds later. \<open>GET /config\<close> answers
  200 with the configuration and returns the store as it was; after it, after
  \<open>GET /infrastructure\<close> and after \<open>POST /infrastructure\<close> the stored \<open>last_seen_at\<close>
  is still 1700000000000000005. Only \<open>/connect\<close> sets it to the current reading.
\<close>

theorem config_leaves_last_seen:
  "validateToken (secret test_cfg) 1700000100000000000 test_token = Inr (client_uuid test_fresh) \<and>
   map_option LastSeen (getClientInfrastructure test_client_store (client_uuid test_fresh)) =
     Some 1700000000000000005 \<and>
   fst (handleConfig test_cfg 1700000100000000000 test_client_store (Some test_token)) =
     ConfigOK \<lparr>Server = ''vpn-ac5f3df0.soltar.com'', Port = 443, Token = test_token,
               EnvironmentID = ''0b9e2a52-7d1c-4e0a-9c3f-5a1d8e6f4b27''\<rparr> \<and>
   snd (handleConfig test_cfg 1700000100000000000 test_client_store (Some test_token)) =
     test_client_store \<and>
   map_option LastSeen
     (getClientInfrastructure
        (snd (handleConfig test_cfg 1700000100000000000 test_client_store (Some test_token)))
        (client_uuid test_fresh)) = Some 1700000000000000005 \<and>
   map_option LastSeen
     (getClientInfrastructure
        (snd (handleGetInfrastructure test_cfg 1700000100000000000 test_client_store
                (Some test_token)))
        (client_uuid test_fresh)) = Some 1700000000000000005 \<and>
   map_option LastSeen
     (getClientInfrastructure
        (snd (handleInfrastructure test_cfg 1700000100000000000 1700000100000000001
                test_client_store (Some test_token)
                (Some \<lparr>upd_Infrastructure = test_manifest\<rparr>)))
        (client_uuid test_fresh)) = Some 1700000000000000005 \<and>
   map_option LastSeen
     (getClientInfrastructure
        (snd (handleConnect test_cfg 1700000100000000000 1700000100000000001
                test_client_store (Some test_token)))
        (client_uuid test_fresh)) = Some 1700000100000000001"
proof -
  have ls: "map_option LastSeen (getClientInfrastructure test_client_store (client_uuid test_fresh)) =
     Some 1700000000000000005"
    by (simp add: test_client_lookup) (simp add: test_fresh_def)
  have cfg: "fst (handleConfig test_cfg 1700000100000000000 test_client_store (Some test_token)) =
     ConfigOK \<lparr>Server = ''vpn-ac5f3df0.soltar.com'', Port = 443, Token = test_token,
               EnvironmentID = ''0b9e2a52-7d1c-4e0a-9c3f-5a1d8e6f4b27''\<rparr>"
    by (simp add: handleConfig_def test_token_valid test_client_lookup)
      (simp add: new_client_def getOrCreateClientWithInfrastructure_def Get_def Let_def
        test_fresh_def)
  have con: "map_option LastSeen
     (getClientInfrastructure
        (snd (handleConnect test_cfg 1700000100000000000 1700000100000000001
                test_client_store (Some test_token)))
        (client_uuid test_fresh)) = Some 1700000100000000001"
    using connect_updates_last_seen [OF test_token_valid test_client_lookup Marshal_new_client,
        of 1700000100000000001]
    by simp
  from ls cfg con test_token_valid show ?thesis
    by (simp add: handleConfig_store handleGetInfrastructure_store
        handleInfrastructure_last_seen test_manifest_ok)
qed

end
